theory Spec2Isabelle
  imports Main "HOL-Library.AList"
begin

text \<open>
  The views of \<open>eco_points/views.py\<close> over an explicit database: a record of the
  tables, passed to each handler and returned by it. A generic view is its class
  attributes plus the handler it inherits from the REST framework (list, create,
  retrieve, update, destroy), written out here for each view; an exception is a value
  of \<open>error\<close>, and a handler that raises returns the database as it was when it raised.
  A request is handled for its authenticated caller, the \<open>User\<close> of
  \<open>accounts/models.py\<close>. Keys of URLs and rows are integers.
\<close>

section \<open>Errors and responses\<close>

text \<open>
  The exceptions a view can end with, and the status code the framework's exception
  handler turns each into: a validation error is 400, a denied permission 403,
  the \<open>Http404\<close> of \<open>get_object_or_404\<close> is 404, and an exception nobody handles
  (a \<open>ValueError\<close>, a \<open>KeyError\<close>, an integrity error of the database) is 500.
\<close>

datatype error = ValidationError | PermissionDenied | NotFound | ServerError

fun error_status :: "error \<Rightarrow> nat" where
  "error_status ValidationError = 400"
| "error_status PermissionDenied = 403"
| "error_status NotFound = 404"
| "error_status ServerError = 500"

record 'a Response =
  data :: 'a
  status_code :: nat

definition HTTP_200_OK :: nat where
  "HTTP_200_OK = 200"

definition HTTP_201_CREATED :: nat where
  "HTTP_201_CREATED = 201"

definition HTTP_204_NO_CONTENT :: nat where
  "HTTP_204_NO_CONTENT = 204"

section \<open>Request data\<close>

text \<open>
  A request body is parsed into \<open>request.data\<close>: a dictionary of field values, or,
  for a JSON body that is an array, a sequence. Dictionaries are association lists in
  insertion order, as Python's are.
\<close>

datatype jvalue = JNull | JBool bool | JInt int | JStr string | JFile string

type_synonym jdict = "(string \<times> jvalue) list"

datatype request_data = Mapping jdict | Sequence "jvalue list"

text \<open>\<open>{**d, **kwargs}\<close>: the keys of \<open>kwargs\<close> win over those of \<open>d\<close>.\<close>

definition dict_merge :: "jdict \<Rightarrow> jdict \<Rightarrow> jdict" where
  "dict_merge d kwargs = fold (\<lambda>(k, v) acc. AList.update k v acc) kwargs d"

section \<open>Data model\<close>

text \<open>
  \<open>accounts/models.py\<close>: the \<open>User\<close> model. \<open>request.user\<close> is the user the identity
  provider authenticated; \<open>is_staff\<close> is the administrator flag.
\<close>

record User =
  user_id :: int
  email :: string
  first_name :: string
  last_name :: string
  user_is_active :: bool
  is_staff :: bool
  is_superuser :: bool

text \<open>
  The rows of \<open>eco_points\<close>. The views name the columns they read: \<open>is_active\<close>,
  \<open>status\<close> and \<open>user\<close> of a collection point, \<open>collection_point_id\<close> of an operating
  hour, \<open>user_id\<close> and \<open>collection_point_id\<close> of a review, \<open>collection_point\<close> and
  \<open>image\<close> of an image. Every other column of a row is kept as a dictionary.
\<close>

record CollectionType =
  ct_id :: int
  ct_fields :: jdict

record CollectionPoint =
  cp_id :: int
  cp_user_id :: int
  is_active :: bool
  status :: string
  cp_fields :: jdict

record OperatingHour =
  oh_id :: int
  oh_collection_point_id :: int
  oh_fields :: jdict

record PointReview =
  pr_id :: int
  pr_user_id :: int
  pr_collection_point_id :: int
  pr_fields :: jdict

record PointImage =
  pi_id :: int
  pi_collection_point_id :: int
  image :: jvalue

record db =
  collection_types :: "CollectionType list"
  collection_points :: "CollectionPoint list"
  operating_hours :: "OperatingHour list"
  point_reviews :: "PointReview list"
  point_images :: "PointImage list"

text \<open>The key the database gives a new row: one past the largest in the table.\<close>

primrec max_id :: "int list \<Rightarrow> int" where
  "max_id [] = 0"
| "max_id (x # xs) = max x (max_id xs)"

definition next_id :: "int list \<Rightarrow> int" where
  "next_id ids = max_id ids + 1"

text \<open>
  \<open>get_object_or_404(Model, pk=pk)\<close>: the row with that key, or \<open>Http404\<close>. A key
  that is \<open>None\<close> (the URL has no such argument) matches no row.
\<close>

definition get_object_or_404 :: "('r \<Rightarrow> int) \<Rightarrow> 'r list \<Rightarrow> int option \<Rightarrow> error + 'r" where
  "get_object_or_404 key rows pk =
     (case pk of
        None \<Rightarrow> Inl NotFound
      | Some i \<Rightarrow> (case find (\<lambda>r. key r = i) rows of None \<Rightarrow> Inl NotFound | Some r \<Rightarrow> Inr r))"

section \<open>The querysets of the module\<close>

definition get_all_object_collection_type :: "db \<Rightarrow> CollectionType list" where
  "get_all_object_collection_type d = collection_types d"

definition get_all_object_collection_point :: "db \<Rightarrow> CollectionPoint list" where
  "get_all_object_collection_point d = collection_points d"

definition get_all_object_operating_hour :: "db \<Rightarrow> OperatingHour list" where
  "get_all_object_operating_hour d = operating_hours d"

definition get_all_object_point_review :: "db \<Rightarrow> PointReview list" where
  "get_all_object_point_review d = point_reviews d"

section \<open>The listings of collection points\<close>

text \<open>
  \<open>ListModelMixin.list\<close>: the rows of the view's queryset, with status 200.
\<close>

definition list_response :: "'r list \<Rightarrow> 'r list Response" where
  "list_response rows = \<lparr>data = rows, status_code = HTTP_200_OK\<rparr>"

text \<open>\<open>UserSubmitedCollectionPointsList.get_queryset\<close>: \<open>filter(user=user)\<close>.\<close>

definition UserSubmitedCollectionPointsList_get_queryset :: "User \<Rightarrow> db \<Rightarrow> CollectionPoint list" where
  "UserSubmitedCollectionPointsList_get_queryset user d =
     filter (\<lambda>p. cp_user_id p = user_id user) (collection_points d)"

text \<open>\<open>ActiveCollectionPointsList.get_queryset\<close>: \<open>filter(is_active=True)\<close>.\<close>

definition ActiveCollectionPointsList_get_queryset :: "db \<Rightarrow> CollectionPoint list" where
  "ActiveCollectionPointsList_get_queryset d =
     filter (\<lambda>p. is_active p = True) (collection_points d)"

text \<open>
  \<open>InactiveCollectionPointsList.get_queryset\<close>:
  \<open>filter(is_active=False, status='pending')\<close>.
\<close>

definition InactiveCollectionPointsList_get_queryset :: "db \<Rightarrow> CollectionPoint list" where
  "InactiveCollectionPointsList_get_queryset d =
     filter (\<lambda>p. is_active p = False \<and> status p = ''pending'') (collection_points d)"

section \<open>Permissions\<close>

text \<open>
  \<open>permission_classes\<close>: the framework checks each class before it calls the
  handler, and raises \<open>PermissionDenied\<close> at the first that refuses. The caller is
  the authenticated \<open>request.user\<close>, so \<open>IsAuthenticated\<close> holds of it, and
  \<open>IsAdminUser\<close> is its \<open>is_staff\<close> flag.
\<close>

datatype permission = IsAuthenticated | IsAdminUser

fun has_permission :: "permission \<Rightarrow> User \<Rightarrow> bool" where
  "has_permission IsAuthenticated user = True"
| "has_permission IsAdminUser user = is_staff user"

definition check_permissions :: "permission list \<Rightarrow> User \<Rightarrow> bool" where
  "check_permissions permission_classes user = list_all (\<lambda>p. has_permission p user) permission_classes"

text \<open>
  \<open>APIView.dispatch\<close>: the permission check, then the handler. A request that is
  refused never reaches the handler, so the database is the one it came with.
\<close>

definition dispatch :: "permission list \<Rightarrow> User \<Rightarrow> (db \<Rightarrow> (error + 'a) \<times> db) \<Rightarrow> db \<Rightarrow> (error + 'a) \<times> db" where
  "dispatch permission_classes user handler d =
     (if check_permissions permission_classes user then handler d else (Inl PermissionDenied, d))"

section \<open>Serializers\<close>

text \<open>
  \<open>serializers.py\<close> is not among the sources, so the field declarations of a
  serializer are a parameter: a function from the incoming dictionary to the validated
  data, or \<open>None\<close> where a field is missing or malformed. It is given whether the
  update is partial and the database (a related field looks its target up).
  \<open>Serializer.is_valid(raise_exception=True)\<close> refuses data that is not a dictionary
  before it looks at any field.
\<close>

type_synonym serializer_fields = "bool \<Rightarrow> db \<Rightarrow> jdict \<Rightarrow> jdict option"

definition is_valid :: "serializer_fields \<Rightarrow> bool \<Rightarrow> db \<Rightarrow> request_data \<Rightarrow> error + jdict" where
  "is_valid field_rules partial d request_data =
     (case request_data of
        Sequence _ \<Rightarrow> Inl ValidationError
      | Mapping incoming \<Rightarrow>
          (case field_rules partial d incoming of
             None \<Rightarrow> Inl ValidationError
           | Some validated_data \<Rightarrow> Inr validated_data))"

record serializers =
  CollectionTypeSerializer :: serializer_fields
  CollectionPointSerializer_fields :: serializer_fields
  PointReviewSerializer :: serializer_fields
  OperatingHourSerializer :: serializer_fields
  PointImageUploadSerializer :: serializer_fields

section \<open>Operating hours\<close>

text \<open>
  \<open>OperatingHour.objects.create(**validated_data)\<close>, which \<open>ModelSerializer.save\<close>
  ends in: the foreign key is the value under \<open>collection_point_id\<close>, the other keys
  are the row's other columns. A missing key, or one that names no collection point,
  breaks the column's constraint, and the exception is not handled.
\<close>

definition OperatingHour_objects_create :: "jdict \<Rightarrow> db \<Rightarrow> (error + OperatingHour) \<times> db" where
  "OperatingHour_objects_create validated_data d =
     (case map_of validated_data ''collection_point_id'' of
        Some (JInt cp) \<Rightarrow>
          (if cp \<in> set (map cp_id (collection_points d)) then
             (let new = \<lparr>oh_id = next_id (map oh_id (operating_hours d)),
                        oh_collection_point_id = cp,
                        oh_fields = AList.delete ''collection_point_id'' validated_data\<rparr>
              in (Inr new, d\<lparr>operating_hours := operating_hours d @ [new]\<rparr>))
           else (Inl ServerError, d))
      | _ \<Rightarrow> (Inl ServerError, d))"

text \<open>
  \<open>OperatingHourList\<close>: the generic list and create over every operating hour; the
  foreign key of a new row comes from the body.
\<close>

definition OperatingHourList_list :: "db \<Rightarrow> OperatingHour list Response" where
  "OperatingHourList_list d = list_response (get_all_object_operating_hour d)"

definition OperatingHourList_create :: "serializers \<Rightarrow> request_data \<Rightarrow> db \<Rightarrow> (error + OperatingHour Response) \<times> db" where
  "OperatingHourList_create S request_data d =
     (case is_valid (OperatingHourSerializer S) False d request_data of
        Inl e \<Rightarrow> (Inl e, d)
      | Inr validated_data \<Rightarrow>
          (case OperatingHour_objects_create validated_data d of
             (Inl e, d') \<Rightarrow> (Inl e, d')
           | (Inr new, d') \<Rightarrow> (Inr \<lparr>data = new, status_code = HTTP_201_CREATED\<rparr>, d')))"

text \<open>
  \<open>OperatingHourDetail.get_queryset\<close>: the hours of the point named in the URL, and
  none when the URL names no point.
\<close>

definition OperatingHourDetail_get_queryset :: "int option \<Rightarrow> db \<Rightarrow> OperatingHour list" where
  "OperatingHourDetail_get_queryset collection_point_pk d =
     (case collection_point_pk of
        Some pk \<Rightarrow> filter (\<lambda>h. oh_collection_point_id h = pk) (operating_hours d)
      | None \<Rightarrow> [])"

text \<open>
  The queryset is evaluated when the generic list serializes it. The database takes
  the key of the filter as a signed 64-bit integer: for a key outside that range the
  query raises (\<open>OverflowError\<close>), and nothing on the way handles the exception.
\<close>

definition fits_database_integer :: "int \<Rightarrow> bool" where
  "fits_database_integer i = (- (2 ^ 63) \<le> i \<and> i < 2 ^ 63)"

definition OperatingHourDetail_list :: "int option \<Rightarrow> db \<Rightarrow> (error + OperatingHour list Response) \<times> db" where
  "OperatingHourDetail_list collection_point_pk d =
     (case collection_point_pk of
        Some pk \<Rightarrow>
          if fits_database_integer pk
          then (Inr (list_response (OperatingHourDetail_get_queryset (Some pk) d)), d)
          else (Inl ServerError, d)
      | None \<Rightarrow> (Inr (list_response (OperatingHourDetail_get_queryset None d)), d))"

text \<open>A URL argument as a value: an integer, or \<open>None\<close>.\<close>

definition jvalue_of_pk :: "int option \<Rightarrow> jvalue" where
  "jvalue_of_pk pk = (case pk of None \<Rightarrow> JNull | Some i \<Rightarrow> JInt i)"

text \<open>
  \<open>OperatingHourDetail.perform_create\<close>: the point of the URL must exist, and
  \<open>serializer.save(collection_point_id=collection_point_pk)\<close> merges that key over the
  validated data before the row is created.
\<close>

definition OperatingHourDetail_perform_create :: "int option \<Rightarrow> jdict \<Rightarrow> db \<Rightarrow> (error + OperatingHour) \<times> db" where
  "OperatingHourDetail_perform_create collection_point_pk validated_data d =
     (case get_object_or_404 cp_id (collection_points d) collection_point_pk of
        Inl e \<Rightarrow> (Inl e, d)
      | Inr _ \<Rightarrow>
          OperatingHour_objects_create
            (dict_merge validated_data [(''collection_point_id'', jvalue_of_pk collection_point_pk)]) d)"

text \<open>
  \<open>CreateModelMixin.create\<close> for \<open>OperatingHourDetail\<close>: the body is validated first,
  then \<open>perform_create\<close> runs, and the new row is returned with status 201.
\<close>

definition OperatingHourDetail_create :: "serializers \<Rightarrow> int option \<Rightarrow> request_data \<Rightarrow> db \<Rightarrow> (error + OperatingHour Response) \<times> db" where
  "OperatingHourDetail_create S collection_point_pk request_data d =
     (case is_valid (OperatingHourSerializer S) False d request_data of
        Inl e \<Rightarrow> (Inl e, d)
      | Inr validated_data \<Rightarrow>
          (case OperatingHourDetail_perform_create collection_point_pk validated_data d of
             (Inl e, d') \<Rightarrow> (Inl e, d')
           | (Inr new, d') \<Rightarrow> (Inr \<lparr>data = new, status_code = HTTP_201_CREATED\<rparr>, d')))"

section \<open>Review filter\<close>

text \<open>
  \<open>request.query_params.get(key)\<close>: the last value the query string gives the key,
  or \<open>None\<close>.
\<close>

definition query_params_get :: "(string \<times> string) list \<Rightarrow> string \<Rightarrow> string option" where
  "query_params_get query_params k = map_of (rev query_params) k"

text \<open>
  \<open>queryset.filter(column=value)\<close> on an integer column, with the value a string of
  the query: the ORM converts it with Python's \<open>int\<close> (surrounding blanks, a sign,
  digits with single underscores between them) and raises \<open>ValueError\<close> when that
  fails.
\<close>

definition is_digit :: "char \<Rightarrow> bool" where
  "is_digit c = (48 \<le> (of_char c :: nat) \<and> (of_char c :: nat) \<le> 57)"

fun digits_value :: "string \<Rightarrow> nat \<Rightarrow> bool \<Rightarrow> nat option" where
  "digits_value [] acc after_digit = (if after_digit then Some acc else None)"
| "digits_value (c # cs) acc after_digit =
     (if is_digit c then digits_value cs (10 * acc + (of_char c - 48)) True
      else if c = CHR ''_'' \<and> after_digit then digits_value cs acc False
      else None)"

definition is_blank :: "char \<Rightarrow> bool" where
  "is_blank c = (c = CHR '' '' \<or> (9 \<le> (of_char c :: nat) \<and> (of_char c :: nat) \<le> 13))"

definition strip :: "string \<Rightarrow> string" where
  "strip s = rev (dropWhile is_blank (rev (dropWhile is_blank s)))"

definition py_int :: "string \<Rightarrow> int option" where
  "py_int s =
     (case strip s of
        [] \<Rightarrow> None
      | c # cs \<Rightarrow>
          if c = CHR ''-'' then map_option (\<lambda>n. - int n) (digits_value cs 0 False)
          else if c = CHR ''+'' then map_option int (digits_value cs 0 False)
          else map_option int (digits_value (c # cs) 0 False))"

definition filter_int_column :: "('r \<Rightarrow> int) \<Rightarrow> string \<Rightarrow> 'r list \<Rightarrow> error + 'r list" where
  "filter_int_column column v rows =
     (case py_int v of
        None \<Rightarrow> Inl ServerError
      | Some n \<Rightarrow> Inr (filter (\<lambda>r. column r = n) rows))"

text \<open>
  \<open>PointReviewFilteredList.get\<close>. The user filter reads the query key \<open>user_id\<close>,
  the point filter reads the query key \<open>id\<close>; a filter is applied when its value is
  truthy, that is present and not the empty string.
\<close>

definition PointReviewFilteredList_get :: "(string \<times> string) list \<Rightarrow> db \<Rightarrow> (error + PointReview list Response) \<times> db" where
  "PointReviewFilteredList_get query_params d =
     (let user_id_param = query_params_get query_params ''user_id'';
          point_id = query_params_get query_params ''id'';
          queryset = point_reviews d
      in case (case user_id_param of
                 None \<Rightarrow> Inr queryset
               | Some v \<Rightarrow> if v = [] then Inr queryset
                           else filter_int_column pr_user_id v queryset) of
           Inl e \<Rightarrow> (Inl e, d)
         | Inr queryset1 \<Rightarrow>
             (case (case point_id of
                      None \<Rightarrow> Inr queryset1
                    | Some v \<Rightarrow> if v = [] then Inr queryset1
                                else filter_int_column pr_collection_point_id v queryset1) of
                Inl e \<Rightarrow> (Inl e, d)
              | Inr queryset2 \<Rightarrow> (Inr \<lparr>data = queryset2, status_code = HTTP_200_OK\<rparr>, d)))"

section \<open>Image upload\<close>

text \<open>
  \<open>PointImageUploadView.post\<close>: the point is looked up first, then the upload is
  validated, then \<open>PointImage.objects.create\<close> stores a new row for the file under
  \<open>image\<close>; the response is the new row with status 201.
\<close>

definition PointImageUploadView_post :: "serializers \<Rightarrow> int option \<Rightarrow> request_data \<Rightarrow> db \<Rightarrow> (error + PointImage Response) \<times> db" where
  "PointImageUploadView_post S pk request_data d =
     (case get_object_or_404 cp_id (collection_points d) pk of
        Inl e \<Rightarrow> (Inl e, d)
      | Inr collection_point \<Rightarrow>
          (case is_valid (PointImageUploadSerializer S) False d request_data of
             Inl e \<Rightarrow> (Inl e, d)
           | Inr validated_data \<Rightarrow>
               (case map_of validated_data ''image'' of
                  None \<Rightarrow> (Inl ServerError, d)
                | Some image_file \<Rightarrow>
                    (let new_image = \<lparr>pi_id = next_id (map pi_id (point_images d)),
                                      pi_collection_point_id = cp_id collection_point,
                                      image = image_file\<rparr>
                     in (Inr \<lparr>data = new_image, status_code = HTTP_201_CREATED\<rparr>,
                         d\<lparr>point_images := point_images d @ [new_image]\<rparr>)))))"

section \<open>Collection points\<close>

text \<open>
  Modelled from the spec: \<open>CollectionPointSerializer\<close> and the \<open>CollectionPoint\<close>
  model's defaults (\<open>serializers.py\<close> and \<open>eco_points/models.py\<close> are not among the
  sources). The spec's create "accepts descriptive fields + implicit owner = caller
  identity; fails with ValidationError if required fields are missing; always
  initializes is_active = false, status = pending regardless of caller-supplied values
  for those two fields (moderation fields are server-controlled, never client-settable
  on create)", and its update "permits modifying descriptive fields but must not allow
  a non-admin caller to alter is_active/status through this path"; the owner is
  "immutable after creation". So the identifier, the owner and the two moderation
  fields are read-only: their keys are dropped from the incoming dictionary, and the
  descriptive fields are validated by the parameter.
\<close>

definition read_only_fields :: "string list" where
  "read_only_fields = [''id'', ''user'', ''is_active'', ''status'']"

text \<open>
  Modelled from the spec: validation by \<open>CollectionPointSerializer\<close>
  (\<open>serializers.py\<close> is not among the sources). The read-only keys of the body are
  ignored, "regardless of caller-supplied values for those two fields"; the descriptive
  fields that are left are validated by the parameter.
\<close>

definition CollectionPointSerializer_is_valid :: "serializers \<Rightarrow> bool \<Rightarrow> db \<Rightarrow> request_data \<Rightarrow> error + jdict" where
  "CollectionPointSerializer_is_valid S partial d request_data =
     (case request_data of
        Sequence xs \<Rightarrow> Inl ValidationError
      | Mapping incoming \<Rightarrow>
          is_valid (CollectionPointSerializer_fields S) partial d
            (Mapping (filter (\<lambda>(k, v). k \<notin> set read_only_fields) incoming)))"

text \<open>
  Modelled from the spec: \<open>CollectionPointSerializer.create\<close> with the model's
  defaults (\<open>serializers.py\<close> and \<open>eco_points/models.py\<close> are not among the
  sources). The new point has "implicit owner = caller identity" and "default
  is_active = false, status = pending".
\<close>

definition CollectionPointSerializer_create :: "User \<Rightarrow> jdict \<Rightarrow> db \<Rightarrow> CollectionPoint \<times> db" where
  "CollectionPointSerializer_create user validated_data d =
     (let new = \<lparr>cp_id = next_id (map cp_id (collection_points d)),
                cp_user_id = user_id user,
                is_active = False,
                status = ''pending'',
                cp_fields = validated_data\<rparr>
      in (new, d\<lparr>collection_points := collection_points d @ [new]\<rparr>))"

text \<open>
  Modelled from the spec: \<open>CollectionPointSerializer.update\<close> (\<open>serializers.py\<close>
  is not among the sources). An update "permits modifying descriptive fields"; the
  owner is "immutable after creation" and the moderation fields are not written.
\<close>

definition CollectionPointSerializer_update :: "CollectionPoint \<Rightarrow> jdict \<Rightarrow> CollectionPoint" where
  "CollectionPointSerializer_update instance validated_data =
     instance\<lparr>cp_fields := dict_merge (cp_fields instance) validated_data\<rparr>"

text \<open>\<open>instance.save()\<close>: the row with the instance's key is replaced.\<close>

definition save_point :: "CollectionPoint \<Rightarrow> db \<Rightarrow> db" where
  "save_point instance d =
     d\<lparr>collection_points := map (\<lambda>p. if cp_id p = cp_id instance then instance else p) (collection_points d)\<rparr>"

text \<open>\<open>CollectionPointList\<close>: the generic list and create.\<close>

definition CollectionPointList_list :: "db \<Rightarrow> (error + CollectionPoint list Response) \<times> db" where
  "CollectionPointList_list d = (Inr (list_response (get_all_object_collection_point d)), d)"

definition CollectionPointList_create :: "serializers \<Rightarrow> User \<Rightarrow> request_data \<Rightarrow> db \<Rightarrow> (error + CollectionPoint Response) \<times> db" where
  "CollectionPointList_create S user request_data d =
     (case CollectionPointSerializer_is_valid S False d request_data of
        Inl e \<Rightarrow> (Inl e, d)
      | Inr validated_data \<Rightarrow>
          (case CollectionPointSerializer_create user validated_data d of
             (new, d') \<Rightarrow> (Inr \<lparr>data = new, status_code = HTTP_201_CREATED\<rparr>, d')))"

text \<open>
  \<open>CollectionPointDetail\<close>: the generic retrieve, update (\<open>PUT\<close>, and \<open>PATCH\<close> with
  \<open>partial\<close>) and destroy, each on the row that \<open>get_object\<close> finds by \<open>pk\<close>.
\<close>

definition CollectionPointDetail_retrieve :: "int option \<Rightarrow> db \<Rightarrow> (error + CollectionPoint Response) \<times> db" where
  "CollectionPointDetail_retrieve pk d =
     (case get_object_or_404 cp_id (get_all_object_collection_point d) pk of
        Inl e \<Rightarrow> (Inl e, d)
      | Inr instance \<Rightarrow> (Inr \<lparr>data = instance, status_code = HTTP_200_OK\<rparr>, d))"

definition CollectionPointDetail_update :: "serializers \<Rightarrow> bool \<Rightarrow> int option \<Rightarrow> request_data \<Rightarrow> db \<Rightarrow> (error + CollectionPoint Response) \<times> db" where
  "CollectionPointDetail_update S partial pk request_data d =
     (case get_object_or_404 cp_id (get_all_object_collection_point d) pk of
        Inl e \<Rightarrow> (Inl e, d)
      | Inr instance \<Rightarrow>
          (case CollectionPointSerializer_is_valid S partial d request_data of
             Inl e \<Rightarrow> (Inl e, d)
           | Inr validated_data \<Rightarrow>
               (let updated = CollectionPointSerializer_update instance validated_data
                in (Inr \<lparr>data = updated, status_code = HTTP_200_OK\<rparr>, save_point updated d))))"

text \<open>
  Modelled from the spec: what deleting a collection point does to the rows that refer
  to it (the \<open>on_delete\<close> of the foreign keys is in \<open>eco_points/models.py\<close>, not among
  the sources). The spec has the point as "the aggregate root for OperatingHour and
  PointImage (their lifetime and visibility are scoped to it)", while a review "references
  but does not own its CollectionPoint": the hours and images of the point go with it.
\<close>

definition delete_point :: "int \<Rightarrow> db \<Rightarrow> db" where
  "delete_point i d =
     d\<lparr>collection_points := filter (\<lambda>p. cp_id p \<noteq> i) (collection_points d),
       operating_hours := filter (\<lambda>h. oh_collection_point_id h \<noteq> i) (operating_hours d),
       point_images := filter (\<lambda>g. pi_collection_point_id g \<noteq> i) (point_images d)\<rparr>"

definition CollectionPointDetail_destroy :: "int option \<Rightarrow> db \<Rightarrow> (error + unit Response) \<times> db" where
  "CollectionPointDetail_destroy pk d =
     (case get_object_or_404 cp_id (get_all_object_collection_point d) pk of
        Inl e \<Rightarrow> (Inl e, d)
      | Inr instance \<Rightarrow>
          (Inr \<lparr>data = (), status_code = HTTP_204_NO_CONTENT\<rparr>, delete_point (cp_id instance) d))"

section \<open>Moderation\<close>

text \<open>
  Modelled from the spec: \<open>PointStatusUpdateSerializer\<close> (\<open>serializers.py\<close> is not
  among the sources). The spec's moderation "performs a partial update restricted to
  the two moderation fields; does not allow changing owner or descriptive fields
  through this path", takes "desired is_active and/or status", and fails with
  "ValidationError if status is outside the enumerated set", "one of pending, approved,
  rejected".
\<close>

definition status_choices :: "string list" where
  "status_choices = [''pending'', ''approved'', ''rejected'']"

definition valid_is_active :: "jvalue option \<Rightarrow> bool" where
  "valid_is_active v = (case v of None \<Rightarrow> True | Some (JBool b) \<Rightarrow> True | Some _ \<Rightarrow> False)"

definition valid_status :: "jvalue option \<Rightarrow> bool" where
  "valid_status v = (case v of None \<Rightarrow> True | Some (JStr s) \<Rightarrow> s \<in> set status_choices | Some _ \<Rightarrow> False)"

definition PointStatusUpdateSerializer_is_valid :: "request_data \<Rightarrow> error + jdict" where
  "PointStatusUpdateSerializer_is_valid request_data =
     (case request_data of
        Sequence xs \<Rightarrow> Inl ValidationError
      | Mapping incoming \<Rightarrow>
          if valid_is_active (map_of incoming ''is_active'') \<and> valid_status (map_of incoming ''status'')
          then Inr (filter (\<lambda>(k, v). k = ''is_active'' \<or> k = ''status'') incoming)
          else Inl ValidationError)"

text \<open>
  Modelled from the spec: \<open>PointStatusUpdateSerializer.update\<close> (\<open>serializers.py\<close>
  is not among the sources): "a partial update restricted to the two moderation
  fields", each written when the validated data has it.
\<close>

definition PointStatusUpdateSerializer_update :: "CollectionPoint \<Rightarrow> jdict \<Rightarrow> CollectionPoint" where
  "PointStatusUpdateSerializer_update instance validated_data =
     instance\<lparr>is_active := (case map_of validated_data ''is_active'' of
                              Some (JBool b) \<Rightarrow> b | _ \<Rightarrow> is_active instance),
              status := (case map_of validated_data ''status'' of
                           Some (JStr s) \<Rightarrow> s | _ \<Rightarrow> status instance)\<rparr>"

text \<open>
  \<open>UpdatePointStatusView\<close>: the generic update over every collection point, by
  \<open>pk\<close>, through \<open>PointStatusUpdateSerializer\<close>, for callers that pass \<open>IsAdminUser\<close>.
\<close>

definition UpdatePointStatusView_permission_classes :: "permission list" where
  "UpdatePointStatusView_permission_classes = [IsAdminUser]"

definition UpdatePointStatusView_update :: "int option \<Rightarrow> request_data \<Rightarrow> db \<Rightarrow> (error + CollectionPoint Response) \<times> db" where
  "UpdatePointStatusView_update pk request_data d =
     (case get_object_or_404 cp_id (get_all_object_collection_point d) pk of
        Inl e \<Rightarrow> (Inl e, d)
      | Inr instance \<Rightarrow>
          (case PointStatusUpdateSerializer_is_valid request_data of
             Inl e \<Rightarrow> (Inl e, d)
           | Inr validated_data \<Rightarrow>
               (let updated = PointStatusUpdateSerializer_update instance validated_data
                in (Inr \<lparr>data = updated, status_code = HTTP_200_OK\<rparr>, save_point updated d))))"

definition UpdatePointStatusView :: "User \<Rightarrow> int option \<Rightarrow> request_data \<Rightarrow> db \<Rightarrow> (error + CollectionPoint Response) \<times> db" where
  "UpdatePointStatusView user pk request_data d =
     dispatch UpdatePointStatusView_permission_classes user (UpdatePointStatusView_update pk request_data) d"

section \<open>Collection types and reviews\<close>

text \<open>
  \<open>CollectionTypeList\<close> and \<open>CollectionTypeDetail\<close>: the generic create, update and
  destroy over the collection types, through \<open>CollectionTypeSerializer\<close>.
\<close>

definition CollectionTypeList_create :: "serializers \<Rightarrow> request_data \<Rightarrow> db \<Rightarrow> (error + CollectionType Response) \<times> db" where
  "CollectionTypeList_create S request_data d =
     (case is_valid (CollectionTypeSerializer S) False d request_data of
        Inl e \<Rightarrow> (Inl e, d)
      | Inr validated_data \<Rightarrow>
          (let new = \<lparr>ct_id = next_id (map ct_id (collection_types d)), ct_fields = validated_data\<rparr>
           in (Inr \<lparr>data = new, status_code = HTTP_201_CREATED\<rparr>,
               d\<lparr>collection_types := collection_types d @ [new]\<rparr>)))"

definition CollectionTypeDetail_update :: "serializers \<Rightarrow> bool \<Rightarrow> int option \<Rightarrow> request_data \<Rightarrow> db \<Rightarrow> (error + CollectionType Response) \<times> db" where
  "CollectionTypeDetail_update S partial pk request_data d =
     (case get_object_or_404 ct_id (get_all_object_collection_type d) pk of
        Inl e \<Rightarrow> (Inl e, d)
      | Inr instance \<Rightarrow>
          (case is_valid (CollectionTypeSerializer S) partial d request_data of
             Inl e \<Rightarrow> (Inl e, d)
           | Inr validated_data \<Rightarrow>
               (let updated = instance\<lparr>ct_fields := dict_merge (ct_fields instance) validated_data\<rparr>
                in (Inr \<lparr>data = updated, status_code = HTTP_200_OK\<rparr>,
                    d\<lparr>collection_types :=
                        map (\<lambda>t. if ct_id t = ct_id updated then updated else t) (collection_types d)\<rparr>))))"

definition CollectionTypeDetail_destroy :: "int option \<Rightarrow> db \<Rightarrow> (error + unit Response) \<times> db" where
  "CollectionTypeDetail_destroy pk d =
     (case get_object_or_404 ct_id (get_all_object_collection_type d) pk of
        Inl e \<Rightarrow> (Inl e, d)
      | Inr instance \<Rightarrow>
          (Inr \<lparr>data = (), status_code = HTTP_204_NO_CONTENT\<rparr>,
           d\<lparr>collection_types := filter (\<lambda>t. ct_id t \<noteq> ct_id instance) (collection_types d)\<rparr>))"

text \<open>
  \<open>PointReviewList\<close> and \<open>PointReviewDetail\<close>: the generic create, update and destroy
  over the reviews, through \<open>PointReviewSerializer\<close>. The two foreign keys of a review
  are the values under \<open>user_id\<close> and \<open>collection_point_id\<close>; a row without them
  breaks the columns' constraints.
\<close>

definition int_under :: "jdict \<Rightarrow> string \<Rightarrow> int option" where
  "int_under validated_data k = (case map_of validated_data k of Some (JInt i) \<Rightarrow> Some i | _ \<Rightarrow> None)"

definition PointReviewList_create :: "serializers \<Rightarrow> request_data \<Rightarrow> db \<Rightarrow> (error + PointReview Response) \<times> db" where
  "PointReviewList_create S request_data d =
     (case is_valid (PointReviewSerializer S) False d request_data of
        Inl e \<Rightarrow> (Inl e, d)
      | Inr validated_data \<Rightarrow>
          (case (int_under validated_data ''user_id'', int_under validated_data ''collection_point_id'') of
             (Some u, Some cp) \<Rightarrow>
               (let new = \<lparr>pr_id = next_id (map pr_id (point_reviews d)),
                          pr_user_id = u,
                          pr_collection_point_id = cp,
                          pr_fields = AList.delete ''user_id'' (AList.delete ''collection_point_id'' validated_data)\<rparr>
                in (Inr \<lparr>data = new, status_code = HTTP_201_CREATED\<rparr>,
                    d\<lparr>point_reviews := point_reviews d @ [new]\<rparr>))
           | _ \<Rightarrow> (Inl ServerError, d)))"

definition PointReviewDetail_update :: "serializers \<Rightarrow> bool \<Rightarrow> int option \<Rightarrow> request_data \<Rightarrow> db \<Rightarrow> (error + PointReview Response) \<times> db" where
  "PointReviewDetail_update S partial pk request_data d =
     (case get_object_or_404 pr_id (get_all_object_point_review d) pk of
        Inl e \<Rightarrow> (Inl e, d)
      | Inr instance \<Rightarrow>
          (case is_valid (PointReviewSerializer S) partial d request_data of
             Inl e \<Rightarrow> (Inl e, d)
           | Inr validated_data \<Rightarrow>
               (let updated = instance\<lparr>
                      pr_user_id := (case int_under validated_data ''user_id'' of
                                       Some u \<Rightarrow> u | None \<Rightarrow> pr_user_id instance),
                      pr_collection_point_id := (case int_under validated_data ''collection_point_id'' of
                                                   Some cp \<Rightarrow> cp | None \<Rightarrow> pr_collection_point_id instance),
                      pr_fields := dict_merge (pr_fields instance)
                                     (AList.delete ''user_id'' (AList.delete ''collection_point_id'' validated_data))\<rparr>
                in (Inr \<lparr>data = updated, status_code = HTTP_200_OK\<rparr>,
                    d\<lparr>point_reviews :=
                        map (\<lambda>r. if pr_id r = pr_id updated then updated else r) (point_reviews d)\<rparr>))))"

definition PointReviewDetail_destroy :: "int option \<Rightarrow> db \<Rightarrow> (error + unit Response) \<times> db" where
  "PointReviewDetail_destroy pk d =
     (case get_object_or_404 pr_id (get_all_object_point_review d) pk of
        Inl e \<Rightarrow> (Inl e, d)
      | Inr instance \<Rightarrow>
          (Inr \<lparr>data = (), status_code = HTTP_204_NO_CONTENT\<rparr>,
           d\<lparr>point_reviews := filter (\<lambda>r. pr_id r \<noteq> pr_id instance) (point_reviews d)\<rparr>))"

section \<open>The requests of the module\<close>

text \<open>
  Every view of \<open>views.py\<close> with each method it answers, and the database after the
  request: the view's permission check, then its handler. A \<open>GET\<close> handler only reads.
\<close>

datatype request =
    CollectionTypeList_GET
  | CollectionTypeList_POST request_data
  | CollectionTypeDetail_GET "int option"
  | CollectionTypeDetail_PUT "int option" request_data
  | CollectionTypeDetail_PATCH "int option" request_data
  | CollectionTypeDetail_DELETE "int option"
  | CollectionPointList_GET
  | CollectionPointList_POST request_data
  | CollectionPointDetail_GET "int option"
  | CollectionPointDetail_PUT "int option" request_data
  | CollectionPointDetail_PATCH "int option" request_data
  | CollectionPointDetail_DELETE "int option"
  | OperatingHourList_GET
  | OperatingHourList_POST request_data
  | OperatingHourDetail_GET "int option"
  | OperatingHourDetail_POST "int option" request_data
  | PointReviewList_GET
  | PointReviewList_POST request_data
  | PointReviewDetail_GET "int option"
  | PointReviewDetail_PUT "int option" request_data
  | PointReviewDetail_PATCH "int option" request_data
  | PointReviewDetail_DELETE "int option"
  | PointReviewFilteredList_GET "(string \<times> string) list"
  | PointImageUploadView_POST "int option" request_data
  | UserSubmitedCollectionPointsList_GET
  | ActiveCollectionPointsList_GET
  | InactiveCollectionPointsList_GET
  | UpdatePointStatusView_PUT "int option" request_data
  | UpdatePointStatusView_PATCH "int option" request_data

fun handle :: "serializers \<Rightarrow> User \<Rightarrow> request \<Rightarrow> db \<Rightarrow> db" where
  "handle S user (CollectionTypeList_POST body) d =
     snd (dispatch [IsAuthenticated] user (CollectionTypeList_create S body) d)"
| "handle S user (CollectionTypeDetail_PUT pk body) d =
     snd (dispatch [IsAuthenticated] user (CollectionTypeDetail_update S False pk body) d)"
| "handle S user (CollectionTypeDetail_PATCH pk body) d =
     snd (dispatch [IsAuthenticated] user (CollectionTypeDetail_update S True pk body) d)"
| "handle S user (CollectionTypeDetail_DELETE pk) d =
     snd (dispatch [IsAuthenticated] user (CollectionTypeDetail_destroy pk) d)"
| "handle S user (CollectionPointList_POST body) d =
     snd (dispatch [IsAuthenticated] user (CollectionPointList_create S user body) d)"
| "handle S user (CollectionPointDetail_PUT pk body) d =
     snd (dispatch [IsAuthenticated] user (CollectionPointDetail_update S False pk body) d)"
| "handle S user (CollectionPointDetail_PATCH pk body) d =
     snd (dispatch [IsAuthenticated] user (CollectionPointDetail_update S True pk body) d)"
| "handle S user (CollectionPointDetail_DELETE pk) d =
     snd (dispatch [IsAuthenticated] user (CollectionPointDetail_destroy pk) d)"
| "handle S user (OperatingHourList_POST body) d =
     snd (dispatch [IsAuthenticated] user (OperatingHourList_create S body) d)"
| "handle S user (OperatingHourDetail_GET pk) d =
     snd (dispatch [IsAuthenticated] user (OperatingHourDetail_list pk) d)"
| "handle S user (OperatingHourDetail_POST pk body) d =
     snd (dispatch [IsAuthenticated] user (OperatingHourDetail_create S pk body) d)"
| "handle S user (PointReviewList_POST body) d =
     snd (dispatch [IsAuthenticated] user (PointReviewList_create S body) d)"
| "handle S user (PointReviewDetail_PUT pk body) d =
     snd (dispatch [IsAuthenticated] user (PointReviewDetail_update S False pk body) d)"
| "handle S user (PointReviewDetail_PATCH pk body) d =
     snd (dispatch [IsAuthenticated] user (PointReviewDetail_update S True pk body) d)"
| "handle S user (PointReviewDetail_DELETE pk) d =
     snd (dispatch [IsAuthenticated] user (PointReviewDetail_destroy pk) d)"
| "handle S user (PointReviewFilteredList_GET query_params) d =
     snd (dispatch [IsAuthenticated] user (PointReviewFilteredList_get query_params) d)"
| "handle S user (PointImageUploadView_POST pk body) d =
     snd (dispatch [IsAuthenticated] user (PointImageUploadView_post S pk body) d)"
| "handle S user (UpdatePointStatusView_PUT pk body) d = snd (UpdatePointStatusView user pk body d)"
| "handle S user (UpdatePointStatusView_PATCH pk body) d = snd (UpdatePointStatusView user pk body d)"
| "handle S user CollectionTypeList_GET d = d"
| "handle S user (CollectionTypeDetail_GET pk) d = d"
| "handle S user CollectionPointList_GET d = d"
| "handle S user (CollectionPointDetail_GET pk) d = d"
| "handle S user OperatingHourList_GET d = d"
| "handle S user PointReviewList_GET d = d"
| "handle S user (PointReviewDetail_GET pk) d = d"
| "handle S user UserSubmitedCollectionPointsList_GET d = d"
| "handle S user ActiveCollectionPointsList_GET d = d"
| "handle S user InactiveCollectionPointsList_GET d = d"

text \<open>The moderation requests, and the moderation fields of the point with a key.\<close>

fun is_moderation :: "request \<Rightarrow> bool" where
  "is_moderation (UpdatePointStatusView_PUT pk body) = True"
| "is_moderation (UpdatePointStatusView_PATCH pk body) = True"
| "is_moderation r = False"

definition moderation_fields :: "db \<Rightarrow> int \<Rightarrow> (bool \<times> string) option" where
  "moderation_fields d i =
     map_option (\<lambda>p. (is_active p, status p)) (find (\<lambda>p. cp_id p = i) (collection_points d))"

text \<open>Every operating hour refers to a collection point of the database.\<close>

definition hours_refer_to_points :: "db \<Rightarrow> bool" where
  "hours_refer_to_points d =
     list_all (\<lambda>h. oh_collection_point_id h \<in> set (map cp_id (collection_points d))) (operating_hours d)"

text \<open>Whether a URL argument names a collection point of the database.\<close>

definition point_exists :: "db \<Rightarrow> int option \<Rightarrow> bool" where
  "point_exists d pk = (case pk of None \<Rightarrow> False | Some i \<Rightarrow> i \<in> set (map cp_id (collection_points d)))"

text \<open>\<open>UserSubmitedCollectionPointsList\<close>: the generic list over the caller's points.\<close>

definition UserSubmitedCollectionPointsList_list :: "User \<Rightarrow> db \<Rightarrow> (error + CollectionPoint list Response) \<times> db" where
  "UserSubmitedCollectionPointsList_list user d =
     (Inr (list_response (UserSubmitedCollectionPointsList_get_queryset user d)), d)"

section \<open>A small database\<close>

text \<open>
  Two users and an administrator; a pending point of the first user and an approved
  point of the second; an operating hour of the first point; a review of each point.
  The serializers accept every dictionary as it is, except the upload serializer, which
  requires a file under \<open>image\<close>.
\<close>

definition alice :: User where
  "alice = \<lparr>user_id = 5, email = ''alice@example.org'', first_name = ''Alice'', last_name = ''A'',
            user_is_active = True, is_staff = False, is_superuser = False\<rparr>"

definition bob :: User where
  "bob = \<lparr>user_id = 6, email = ''bob@example.org'', first_name = ''Bob'', last_name = ''B'',
          user_is_active = True, is_staff = False, is_superuser = False\<rparr>"

definition carol :: User where
  "carol = \<lparr>user_id = 7, email = ''carol@example.org'', first_name = ''Carol'', last_name = ''C'',
            user_is_active = True, is_staff = False, is_superuser = False\<rparr>"

definition admin :: User where
  "admin = \<lparr>user_id = 1, email = ''admin@example.org'', first_name = ''Ad'', last_name = ''Min'',
            user_is_active = True, is_staff = True, is_superuser = True\<rparr>"

definition point1 :: CollectionPoint where
  "point1 = \<lparr>cp_id = 1, cp_user_id = 5, is_active = False, status = ''pending'',
             cp_fields = [(''name'', JStr ''Glass'')]\<rparr>"

definition point2 :: CollectionPoint where
  "point2 = \<lparr>cp_id = 2, cp_user_id = 6, is_active = True, status = ''approved'',
             cp_fields = [(''name'', JStr ''Paper'')]\<rparr>"

definition hour1 :: OperatingHour where
  "hour1 = \<lparr>oh_id = 1, oh_collection_point_id = 1, oh_fields = [(''day'', JInt 1)]\<rparr>"

definition review1 :: PointReview where
  "review1 = \<lparr>pr_id = 1, pr_user_id = 5, pr_collection_point_id = 1, pr_fields = [(''rating'', JInt 4)]\<rparr>"

definition review2 :: PointReview where
  "review2 = \<lparr>pr_id = 2, pr_user_id = 6, pr_collection_point_id = 2, pr_fields = [(''rating'', JInt 2)]\<rparr>"

definition db0 :: db where
  "db0 = \<lparr>collection_types = [], collection_points = [point1, point2], operating_hours = [hour1],
          point_reviews = [review1, review2], point_images = []\<rparr>"

definition upload_fields :: serializer_fields where
  "upload_fields partial d incoming =
     (case map_of incoming ''image'' of
        Some (JFile f) \<Rightarrow> Some [(''image'', JFile f)]
      | _ \<Rightarrow> None)"

definition S0 :: serializers where
  "S0 = \<lparr>CollectionTypeSerializer = (\<lambda>partial d incoming. Some incoming),
         CollectionPointSerializer_fields = (\<lambda>partial d incoming. Some incoming),
         PointReviewSerializer = (\<lambda>partial d incoming. Some incoming),
         OperatingHourSerializer = (\<lambda>partial d incoming. Some incoming),
         PointImageUploadSerializer = upload_fields\<rparr>"

text \<open>
  A body for a new operating hour that names point 2 as its collection point, and an
  upload with the two images it makes.
\<close>

definition spoofed_body :: request_data where
  "spoofed_body = Mapping [(''collection_point_id'', JInt 2), (''day'', JInt 3)]"

definition photo :: request_data where
  "photo = Mapping [(''image'', JFile ''photo.png'')]"

definition image1 :: PointImage where
  "image1 = \<lparr>pi_id = 1, pi_collection_point_id = 1, image = JFile ''photo.png''\<rparr>"

definition image2 :: PointImage where
  "image2 = \<lparr>pi_id = 2, pi_collection_point_id = 1, image = JFile ''photo.png''\<rparr>"

text \<open>
  A moderation body that approves a point; a body for a new point that also sets the
  two moderation fields, and the point it makes.
\<close>

definition approve :: request_data where
  "approve = Mapping [(''is_active'', JBool True), (''status'', JStr ''approved'')]"

definition keen_body :: request_data where
  "keen_body = Mapping [(''name'', JStr ''Metal''), (''is_active'', JBool True), (''status'', JStr ''approved'')]"

definition point3 :: CollectionPoint where
  "point3 = \<lparr>cp_id = 3, cp_user_id = 5, is_active = False, status = ''pending'',
             cp_fields = [(''name'', JStr ''Metal'')]\<rparr>"

section \<open>Lookups\<close>

lemmas example_defs = db0_def point1_def point2_def hour1_def review1_def review2_def S0_def
  alice_def bob_def carol_def admin_def upload_fields_def

lemma find_None_iff_not_in: "(find (\<lambda>r. key r = i) rows = None) = (i \<notin> set (map key rows))"
  by (induction rows) auto

lemma find_Some_key: "find (\<lambda>r. key r = i) rows = Some r \<Longrightarrow> key r = i \<and> r \<in> set rows"
  by (induction rows) (auto split: if_splits)

lemma get_object_or_404_missing:
  "\<not> point_exists d pk \<Longrightarrow> get_object_or_404 cp_id (collection_points d) pk = Inl NotFound"
  by (auto simp: point_exists_def get_object_or_404_def split: option.splits dest!: find_Some_key)

lemma get_object_or_404_found:
  "point_exists d pk \<Longrightarrow>
     \<exists>p. get_object_or_404 cp_id (collection_points d) pk = Inr p \<and> Some (cp_id p) = pk
         \<and> p \<in> set (collection_points d)"
proof (cases pk)
  case None
  assume "point_exists d pk"
  with None show ?thesis by (simp add: point_exists_def)
next
  case (Some i)
  assume ex: "point_exists d pk"
  show ?thesis
  proof (cases "find (\<lambda>r. cp_id r = i) (collection_points d)")
    case None
    with ex Some show ?thesis by (simp add: point_exists_def find_None_iff_not_in)
  next
    case (Some p)
    from find_Some_key [OF Some] Some \<open>pk = Some i\<close> show ?thesis
      by (simp add: get_object_or_404_def)
  qed
qed

lemma get_object_or_404_Inr:
  "get_object_or_404 key rows pk = Inr r \<Longrightarrow> pk = Some (key r) \<and> r \<in> set rows"
  by (auto simp: get_object_or_404_def split: option.splits dest: find_Some_key)

lemma le_max_id: "x \<in> set xs \<Longrightarrow> x \<le> max_id xs"
  by (induction xs) auto

lemma next_id_fresh: "next_id xs \<notin> set xs"
proof
  assume "next_id xs \<in> set xs"
  then have "next_id xs \<le> max_id xs" by (rule le_max_id)
  then show False by (simp add: next_id_def)
qed

lemma is_valid_error: "is_valid f partial d body = Inl e \<Longrightarrow> e = ValidationError"
  by (auto simp: is_valid_def split: request_data.splits option.splits)

lemma map_of_save_kwarg: "map_of (dict_merge validated_data [(k, v)]) k = Some v"
  by (simp add: dict_merge_def update_conv')

lemma find_append_fresh:
  "find P xs = Some x \<Longrightarrow> find P (xs @ ys) = Some x"
  by (induction xs) (auto split: if_splits)

lemma find_append_new:
  "find P xs = None \<Longrightarrow> P y \<Longrightarrow> find P (xs @ [y]) = Some y"
  by (induction xs) (auto split: if_splits)

lemma find_map_same_key:
  assumes "\<And>p. key (f p) = key p"
  shows "find (\<lambda>p. key p = i) (map f ps) = map_option f (find (\<lambda>p. key p = i) ps)"
  using assms by (induction ps) auto

lemma find_filter_other:
  "i \<noteq> k \<Longrightarrow> find (\<lambda>p. key p = i) (filter (\<lambda>p. key p \<noteq> k) ps) = find (\<lambda>p. key p = i) ps"
  by (induction ps) auto

lemma find_filter_self:
  "find (\<lambda>p. key p = k) (filter (\<lambda>p. key p \<noteq> k) ps) = None"
  by (induction ps) auto

lemma get_object_or_404_find:
  "get_object_or_404 key rows pk = Inr r \<Longrightarrow> find (\<lambda>x. key x = key r) rows = Some r"
  by (auto simp: get_object_or_404_def split: option.splits dest: find_Some_key)

section \<open>The listings\<close>

text \<open>
  C3: in every state of the registry the active listing returns exactly the points with
  \<open>is_active = true\<close>, the inactive-pending listing returns exactly the points with
  \<open>is_active = false\<close> and \<open>status = 'pending'\<close>, and no point is in both.
\<close>

theorem active_and_pending_listings_exact_and_disjoint:
  "set (ActiveCollectionPointsList_get_queryset d) = {p \<in> set (collection_points d). is_active p}
   \<and> set (InactiveCollectionPointsList_get_queryset d) =
       {p \<in> set (collection_points d). \<not> is_active p \<and> status p = ''pending''}
   \<and> set (ActiveCollectionPointsList_get_queryset d)
       \<inter> set (InactiveCollectionPointsList_get_queryset d) = {}"
  by (auto simp: ActiveCollectionPointsList_get_queryset_def InactiveCollectionPointsList_get_queryset_def)

text \<open>
  C8: for every authenticated user the own-submitted-points listing returns exactly the
  points whose owner is that user, the inactive ones among them too, and it returns the
  empty sequence with status 200, not an error, when the user owns none.
\<close>

theorem own_points_listing_exact:
  "set (UserSubmitedCollectionPointsList_get_queryset user d) =
     {p \<in> set (collection_points d). cp_user_id p = user_id user}
   \<and> (\<forall>p \<in> set (collection_points d). cp_user_id p = user_id user \<and> \<not> is_active p \<longrightarrow>
        p \<in> set (UserSubmitedCollectionPointsList_get_queryset user d))
   \<and> UserSubmitedCollectionPointsList_list user d =
       (Inr \<lparr>data = UserSubmitedCollectionPointsList_get_queryset user d, status_code = 200\<rparr>, d)
   \<and> ((\<forall>p \<in> set (collection_points d). cp_user_id p \<noteq> user_id user) \<longrightarrow>
        UserSubmitedCollectionPointsList_list user d = (Inr \<lparr>data = [], status_code = 200\<rparr>, d))"
  by (auto simp: UserSubmitedCollectionPointsList_get_queryset_def UserSubmitedCollectionPointsList_list_def
      list_response_def HTTP_200_OK_def filter_empty_conv)

theorem own_points_listing_exact_witness:
  "UserSubmitedCollectionPointsList_list carol db0 = (Inr \<lparr>data = [], status_code = 200\<rparr>, db0)
   \<and> point1 \<in> set (UserSubmitedCollectionPointsList_get_queryset alice db0)
   \<and> \<not> is_active point1 \<and> point1 \<notin> set (ActiveCollectionPointsList_get_queryset db0)"
proof -
  have none: "\<forall>p \<in> set (collection_points db0). cp_user_id p \<noteq> user_id carol"
    by (simp add: example_defs)
  have own: "point1 \<in> set (collection_points db0) \<and> cp_user_id point1 = user_id alice \<and> \<not> is_active point1"
    by (simp add: example_defs)
  have hidden: "point1 \<notin> set (ActiveCollectionPointsList_get_queryset db0)"
    by (simp add: ActiveCollectionPointsList_get_queryset_def example_defs)
  from own_points_listing_exact [of carol db0] none
  have "UserSubmitedCollectionPointsList_list carol db0 = (Inr \<lparr>data = [], status_code = 200\<rparr>, db0)"
    by blast
  moreover from own_points_listing_exact [of alice db0] own
  have "point1 \<in> set (UserSubmitedCollectionPointsList_get_queryset alice db0)"
    by blast
  ultimately show ?thesis using own hidden by blast
qed

section \<open>Operating hours of a point\<close>

text \<open>
  C9, as stated: every scoped listing of operating hours whose URL names no existing
  collection point returns the empty sequence with status 200. It does not hold for a
  key past the 64-bit range of the database: the key names no point, and the listing
  ends in a server error.
\<close>

theorem scoped_hours_listing_key_out_of_range:
  "\<not> (\<forall>d pk. hours_refer_to_points d \<and> \<not> point_exists d (Some pk) \<longrightarrow>
         OperatingHourDetail_list (Some pk) d = (Inr \<lparr>data = [], status_code = 200\<rparr>, d))"
proof
  assume all: "\<forall>d pk. hours_refer_to_points d \<and> \<not> point_exists d (Some pk) \<longrightarrow>
         OperatingHourDetail_list (Some pk) d = (Inr \<lparr>data = [], status_code = 200\<rparr>, d)"
  have refer: "hours_refer_to_points db0"
    by (simp add: hours_refer_to_points_def example_defs)
  have missing: "\<not> point_exists db0 (Some 99999999999999999999)"
    by (simp add: point_exists_def example_defs)
  have "OperatingHourDetail_list (Some 99999999999999999999) db0 = (Inl ServerError, db0)"
    by (simp add: OperatingHourDetail_list_def fits_database_integer_def)
  moreover from all refer missing
  have "OperatingHourDetail_list (Some 99999999999999999999) db0 =
      (Inr \<lparr>data = [], status_code = 200\<rparr>, db0)"
    by blast
  ultimately show False by simp
qed

text \<open>
  C9, amended: a scoped listing of operating hours whose URL names no collection point
  at all, or names with a key in the 64-bit range of the database a point that does not
  exist, returns the empty sequence with status 200 (the hours of a database refer to
  its points, so none refers to a point that does not exist). For a key outside that
  range the listing ends in a server error. The listing never looks the point up: it
  never fails with \<open>NotFound\<close>, and it leaves the database as it was.
\<close>

theorem scoped_hours_listing_never_not_found:
  "OperatingHourDetail_list None d = (Inr \<lparr>data = [], status_code = 200\<rparr>, d)
   \<and> (hours_refer_to_points d \<and> \<not> point_exists d (Some pk) \<and> fits_database_integer pk \<longrightarrow>
        OperatingHourDetail_list (Some pk) d = (Inr \<lparr>data = [], status_code = 200\<rparr>, d))
   \<and> (\<not> fits_database_integer pk \<longrightarrow>
        OperatingHourDetail_list (Some pk) d = (Inl ServerError, d))
   \<and> (\<forall>k. (k = None \<or> (\<exists>i. k = Some i \<and> fits_database_integer i)) \<longrightarrow>
        (\<exists>r. OperatingHourDetail_list k d = (Inr r, d) \<and> status_code r = 200))
   \<and> (\<forall>k. fst (OperatingHourDetail_list k d) \<noteq> Inl NotFound \<and> snd (OperatingHourDetail_list k d) = d)"
proof (intro conjI allI impI)
  show "OperatingHourDetail_list None d = (Inr \<lparr>data = [], status_code = 200\<rparr>, d)"
    by (simp add: OperatingHourDetail_list_def OperatingHourDetail_get_queryset_def
        list_response_def HTTP_200_OK_def)
next
  assume "hours_refer_to_points d \<and> \<not> point_exists d (Some pk) \<and> fits_database_integer pk"
  then show "OperatingHourDetail_list (Some pk) d = (Inr \<lparr>data = [], status_code = 200\<rparr>, d)"
    by (auto simp: OperatingHourDetail_list_def OperatingHourDetail_get_queryset_def
        list_response_def HTTP_200_OK_def hours_refer_to_points_def point_exists_def
        list_all_iff filter_empty_conv)
next
  assume "\<not> fits_database_integer pk"
  then show "OperatingHourDetail_list (Some pk) d = (Inl ServerError, d)"
    by (simp add: OperatingHourDetail_list_def)
next
  fix k
  assume "k = None \<or> (\<exists>i. k = Some i \<and> fits_database_integer i)"
  then show "\<exists>r. OperatingHourDetail_list k d = (Inr r, d) \<and> status_code r = 200"
    by (auto simp: OperatingHourDetail_list_def list_response_def HTTP_200_OK_def)
next
  fix k
  show "fst (OperatingHourDetail_list k d) \<noteq> Inl NotFound"
    by (simp add: OperatingHourDetail_list_def split: option.splits)
next
  fix k
  show "snd (OperatingHourDetail_list k d) = d"
    by (simp add: OperatingHourDetail_list_def split: option.splits)
qed

theorem scoped_hours_listing_never_not_found_witness:
  "hours_refer_to_points db0 \<and> \<not> point_exists db0 (Some 7) \<and> fits_database_integer 7
   \<and> OperatingHourDetail_list (Some 7) db0 = (Inr \<lparr>data = [], status_code = 200\<rparr>, db0)
   \<and> \<not> fits_database_integer 99999999999999999999
   \<and> OperatingHourDetail_list (Some 99999999999999999999) db0 = (Inl ServerError, db0)"
proof -
  have refer: "hours_refer_to_points db0"
    by (simp add: hours_refer_to_points_def example_defs)
  have missing: "\<not> point_exists db0 (Some 7)"
    by (simp add: point_exists_def example_defs)
  have small: "fits_database_integer 7"
    by (simp add: fits_database_integer_def)
  have large: "\<not> fits_database_integer 99999999999999999999"
    by (simp add: fits_database_integer_def)
  from scoped_hours_listing_never_not_found [of db0 7] refer missing small
  have "OperatingHourDetail_list (Some 7) db0 = (Inr \<lparr>data = [], status_code = 200\<rparr>, db0)"
    by blast
  moreover from scoped_hours_listing_never_not_found [of db0 99999999999999999999] large
  have "OperatingHourDetail_list (Some 99999999999999999999) db0 = (Inl ServerError, db0)"
    by blast
  ultimately show ?thesis using refer missing small large by blast
qed

section \<open>Review filter\<close>

lemma py_int_2: "py_int ''2'' = Some 2"
  by (simp add: py_int_def strip_def is_blank_def is_digit_def)

text \<open>
  C6: the review filter, asked for the reviews of point 2 with \<open>point_id=2\<close>, returns
  every review, the one of point 1 too: the view reads the point from the query key
  \<open>id\<close>, which the request does not have.
\<close>

theorem review_filter_ignores_point_id:
  "PointReviewFilteredList_get [(''point_id'', ''2'')] db0 =
     (Inr \<lparr>data = [review1, review2], status_code = 200\<rparr>, db0)
   \<and> pr_collection_point_id review1 \<noteq> 2"
  by (simp add: PointReviewFilteredList_get_def query_params_get_def example_defs HTTP_200_OK_def Let_def)

lemma review_filter_reads_id:
  "PointReviewFilteredList_get [(''id'', ''2'')] db0 =
     (Inr \<lparr>data = [review2], status_code = 200\<rparr>, db0)"
  by (simp add: PointReviewFilteredList_get_def query_params_get_def example_defs HTTP_200_OK_def
     filter_int_column_def py_int_2 Let_def)

section \<open>Image upload\<close>

text \<open>
  C10: an upload to a point that does not exist fails with \<open>NotFound\<close> whatever the
  body is, so also when the file is missing or malformed: the point is looked up before
  the upload is validated. No upload that fails creates a row.
\<close>

theorem upload_checks_point_before_file:
  "(\<not> point_exists d pk \<longrightarrow> PointImageUploadView_post S pk body d = (Inl NotFound, d))
   \<and> (\<forall>e. fst (PointImageUploadView_post S pk body d) = Inl e \<longrightarrow>
        snd (PointImageUploadView_post S pk body d) = d)"
  by (auto simp: PointImageUploadView_post_def get_object_or_404_missing Let_def
      split: sum.splits option.splits)

theorem upload_checks_point_before_file_witness:
  "is_valid (PointImageUploadSerializer S0) False db0 (Mapping []) = Inl ValidationError
   \<and> PointImageUploadView_post S0 (Some 7) (Mapping []) db0 = (Inl NotFound, db0)
   \<and> snd (PointImageUploadView_post S0 (Some 1) (Mapping []) db0) = db0"
  using upload_checks_point_before_file [of db0 "Some 7" S0 "Mapping []"]
    upload_checks_point_before_file [of db0 "Some 1" S0 "Mapping []"]
  by (simp add: point_exists_def example_defs is_valid_def PointImageUploadView_post_def
      get_object_or_404_def)

section \<open>Creating an operating hour for a point\<close>

lemma perform_create_missing:
  "\<not> point_exists d pk \<Longrightarrow> OperatingHourDetail_perform_create pk validated_data d = (Inl NotFound, d)"
  by (simp add: OperatingHourDetail_perform_create_def get_object_or_404_missing)

lemma objects_create_linked:
  assumes "map_of validated_data ''collection_point_id'' = Some (JInt P)"
    and "point_exists d (Some P)"
  shows "\<exists>new. OperatingHour_objects_create validated_data d =
           (Inr new, d\<lparr>operating_hours := operating_hours d @ [new]\<rparr>)
         \<and> oh_collection_point_id new = P
         \<and> oh_id new = next_id (map oh_id (operating_hours d))"
  using assms by (simp add: OperatingHour_objects_create_def point_exists_def Let_def)

lemma perform_create_found:
  assumes "point_exists d (Some P)"
  shows "\<exists>new. OperatingHourDetail_perform_create (Some P) validated_data d =
           (Inr new, d\<lparr>operating_hours := operating_hours d @ [new]\<rparr>)
         \<and> oh_collection_point_id new = P
         \<and> oh_id new = next_id (map oh_id (operating_hours d))"
proof -
  from get_object_or_404_found [OF assms] obtain p
    where found: "get_object_or_404 cp_id (collection_points d) (Some P) = Inr p"
    by blast
  have key: "map_of (dict_merge validated_data [(''collection_point_id'', jvalue_of_pk (Some P))])
               ''collection_point_id'' = Some (JInt P)"
    by (simp add: map_of_save_kwarg jvalue_of_pk_def)
  from objects_create_linked [OF key assms] found show ?thesis
    by (simp add: OperatingHourDetail_perform_create_def)
qed

text \<open>
  C4, as stated: every scoped create whose URL names no existing collection point fails
  with \<open>NotFound\<close>. It does not hold: the body is validated before \<open>perform_create\<close>
  looks the point up, so a body that is not valid is answered with \<open>ValidationError\<close>.
\<close>

theorem scoped_create_validates_before_lookup:
  "\<not> (\<forall>S pk body d. \<not> point_exists d pk \<longrightarrow>
         fst (OperatingHourDetail_create S pk body d) = Inl NotFound)"
proof
  assume all: "\<forall>S pk body d. \<not> point_exists d pk \<longrightarrow>
         fst (OperatingHourDetail_create S pk body d) = Inl NotFound"
  have missing: "\<not> point_exists db0 (Some 7)"
    by (simp add: point_exists_def example_defs)
  have "fst (OperatingHourDetail_create S0 (Some 7) (Sequence []) db0) = Inl ValidationError"
    by (simp add: OperatingHourDetail_create_def is_valid_def)
  moreover from all missing
  have "fst (OperatingHourDetail_create S0 (Some 7) (Sequence []) db0) = Inl NotFound"
    by blast
  ultimately show False by simp
qed

text \<open>
  C4, amended: a scoped create whose URL names no existing collection point creates no
  operating hour and leaves the database as it was; it fails with \<open>NotFound\<close> when
  the body passes validation, and with \<open>ValidationError\<close> when it does not.
\<close>

theorem scoped_create_for_missing_point:
  "\<not> point_exists d pk \<Longrightarrow>
     (\<forall>validated_data. is_valid (OperatingHourSerializer S) False d body = Inr validated_data \<longrightarrow>
        OperatingHourDetail_create S pk body d = (Inl NotFound, d))
     \<and> (\<forall>e. is_valid (OperatingHourSerializer S) False d body = Inl e \<longrightarrow>
        OperatingHourDetail_create S pk body d = (Inl ValidationError, d))
     \<and> snd (OperatingHourDetail_create S pk body d) = d"
  by (auto simp: OperatingHourDetail_create_def perform_create_missing dest: is_valid_error split: sum.splits)

theorem scoped_create_for_missing_point_witness:
  "\<not> point_exists db0 (Some 7)
   \<and> is_valid (OperatingHourSerializer S0) False db0 (Mapping [(''day'', JInt 2)]) = Inr [(''day'', JInt 2)]
   \<and> OperatingHourDetail_create S0 (Some 7) (Mapping [(''day'', JInt 2)]) db0 = (Inl NotFound, db0)"
proof -
  have missing: "\<not> point_exists db0 (Some 7)"
    by (simp add: point_exists_def example_defs)
  have valid: "is_valid (OperatingHourSerializer S0) False db0 (Mapping [(''day'', JInt 2)]) = Inr [(''day'', JInt 2)]"
    by (simp add: is_valid_def S0_def)
  from scoped_create_for_missing_point [OF missing, of S0 "Mapping [(''day'', JInt 2)]"] valid
  have "OperatingHourDetail_create S0 (Some 7) (Mapping [(''day'', JInt 2)]) db0 = (Inl NotFound, db0)"
    by blast
  with missing valid show ?thesis by blast
qed

text \<open>
  C5: a scoped create on an existing point \<open>P\<close> whose body is valid makes one new
  operating hour, and that hour is linked to \<open>P\<close>, whatever collection point the
  body names; so every hour the scoped create returns is linked to the point of the URL.
\<close>

theorem scoped_create_links_to_path_point:
  "(point_exists d (Some P) \<and> is_valid (OperatingHourSerializer S) False d body = Inr validated_data \<longrightarrow>
     (\<exists>new. OperatingHourDetail_create S (Some P) body d =
        (Inr \<lparr>data = new, status_code = 201\<rparr>, d\<lparr>operating_hours := operating_hours d @ [new]\<rparr>)
      \<and> oh_collection_point_id new = P))
   \<and> (\<forall>r d'. OperatingHourDetail_create S (Some P) body d = (Inr r, d') \<longrightarrow>
        oh_collection_point_id (data r) = P)"
proof (intro conjI impI allI)
  assume "point_exists d (Some P) \<and> is_valid (OperatingHourSerializer S) False d body = Inr validated_data"
  then have ex: "point_exists d (Some P)"
    and valid: "is_valid (OperatingHourSerializer S) False d body = Inr validated_data"
    by simp_all
  from perform_create_found [OF ex, of validated_data] obtain new
    where "OperatingHourDetail_perform_create (Some P) validated_data d =
           (Inr new, d\<lparr>operating_hours := operating_hours d @ [new]\<rparr>)"
      and "oh_collection_point_id new = P"
    by blast
  with valid show "\<exists>new. OperatingHourDetail_create S (Some P) body d =
        (Inr \<lparr>data = new, status_code = 201\<rparr>, d\<lparr>operating_hours := operating_hours d @ [new]\<rparr>)
      \<and> oh_collection_point_id new = P"
    by (simp add: OperatingHourDetail_create_def HTTP_201_CREATED_def)
next
  fix r d'
  assume created: "OperatingHourDetail_create S (Some P) body d = (Inr r, d')"
  then obtain vd where valid: "is_valid (OperatingHourSerializer S) False d body = Inr vd"
    by (cases "is_valid (OperatingHourSerializer S) False d body")
      (simp_all add: OperatingHourDetail_create_def)
  have ex: "point_exists d (Some P)"
  proof (rule ccontr)
    assume "\<not> point_exists d (Some P)"
    with created valid show False
      by (simp add: OperatingHourDetail_create_def perform_create_missing)
  qed
  from perform_create_found [OF ex, of vd] obtain new
    where "OperatingHourDetail_perform_create (Some P) vd d =
           (Inr new, d\<lparr>operating_hours := operating_hours d @ [new]\<rparr>)"
      and "oh_collection_point_id new = P"
    by blast
  with created valid show "oh_collection_point_id (data r) = P"
    by (auto simp: OperatingHourDetail_create_def)
qed

theorem scoped_create_links_to_path_point_witness:
  "point_exists db0 (Some 1)
   \<and> is_valid (OperatingHourSerializer S0) False db0 spoofed_body =
       Inr [(''collection_point_id'', JInt 2), (''day'', JInt 3)]
   \<and> (\<exists>new. OperatingHourDetail_create S0 (Some 1) spoofed_body db0 =
        (Inr \<lparr>data = new, status_code = 201\<rparr>, db0\<lparr>operating_hours := operating_hours db0 @ [new]\<rparr>)
      \<and> oh_collection_point_id new = 1)"
proof -
  have ex: "point_exists db0 (Some 1)"
    by (simp add: point_exists_def example_defs)
  have valid: "is_valid (OperatingHourSerializer S0) False db0 spoofed_body =
       Inr [(''collection_point_id'', JInt 2), (''day'', JInt 3)]"
    by (simp add: is_valid_def S0_def spoofed_body_def)
  from scoped_create_links_to_path_point [of db0 1 S0 spoofed_body] ex valid show ?thesis by blast
qed

section \<open>Repeated uploads\<close>

lemma upload_success:
  assumes "PointImageUploadView_post S pk body d = (Inr r, d')"
  shows "pk = Some (pi_collection_point_id (data r))
         \<and> pi_id (data r) = next_id (map pi_id (point_images d))
         \<and> d' = d\<lparr>point_images := point_images d @ [data r]\<rparr>
         \<and> status_code r = 201"
  using assms
  by (auto simp: PointImageUploadView_post_def Let_def HTTP_201_CREATED_def
      split: sum.splits option.splits dest!: get_object_or_404_Inr)

text \<open>
  C7: the upload is not idempotent. Two successful uploads to a point, one after the
  other, leave two new images after those the database had; the two have different keys,
  neither key was in use, and both are linked to the point of the URL.
\<close>

theorem two_uploads_two_images:
  assumes first: "PointImageUploadView_post S pk body1 d = (Inr r1, d1)"
    and second: "PointImageUploadView_post S pk body2 d1 = (Inr r2, d2)"
  shows "point_images d2 = point_images d @ [data r1, data r2]
         \<and> pi_id (data r1) \<noteq> pi_id (data r2)
         \<and> pi_id (data r1) \<notin> set (map pi_id (point_images d))
         \<and> pi_id (data r2) \<notin> set (map pi_id (point_images d))
         \<and> pk = Some (pi_collection_point_id (data r1))
         \<and> pk = Some (pi_collection_point_id (data r2))"
proof -
  from upload_success [OF first]
  have id1: "pi_id (data r1) = next_id (map pi_id (point_images d))"
    and d1: "d1 = d\<lparr>point_images := point_images d @ [data r1]\<rparr>"
    and pk1: "pk = Some (pi_collection_point_id (data r1))"
    by simp_all
  from upload_success [OF second]
  have id2: "pi_id (data r2) = next_id (map pi_id (point_images d1))"
    and d2: "d2 = d1\<lparr>point_images := point_images d1 @ [data r2]\<rparr>"
    and pk2: "pk = Some (pi_collection_point_id (data r2))"
    by simp_all
  have fresh1: "pi_id (data r1) \<notin> set (map pi_id (point_images d))"
    unfolding id1 by (rule next_id_fresh)
  have fresh2: "pi_id (data r2) \<notin> set (map pi_id (point_images d1))"
    unfolding id2 by (rule next_id_fresh)
  from fresh2 d1 have "pi_id (data r2) \<noteq> pi_id (data r1)"
    and "pi_id (data r2) \<notin> set (map pi_id (point_images d))"
    by auto
  with fresh1 d1 d2 pk1 pk2 show ?thesis by auto
qed

theorem two_uploads_two_images_witness:
  "PointImageUploadView_post S0 (Some 1) photo db0 =
     (Inr \<lparr>data = image1, status_code = 201\<rparr>, db0\<lparr>point_images := [image1]\<rparr>)
   \<and> PointImageUploadView_post S0 (Some 1) photo (db0\<lparr>point_images := [image1]\<rparr>) =
     (Inr \<lparr>data = image2, status_code = 201\<rparr>, db0\<lparr>point_images := [image1, image2]\<rparr>)
   \<and> pi_id image1 \<noteq> pi_id image2"
proof -
  have first: "PointImageUploadView_post S0 (Some 1) photo db0 =
     (Inr \<lparr>data = image1, status_code = 201\<rparr>, db0\<lparr>point_images := [image1]\<rparr>)"
    by (simp add: PointImageUploadView_post_def get_object_or_404_def is_valid_def photo_def
        image1_def next_id_def HTTP_201_CREATED_def example_defs Let_def)
  have second: "PointImageUploadView_post S0 (Some 1) photo (db0\<lparr>point_images := [image1]\<rparr>) =
     (Inr \<lparr>data = image2, status_code = 201\<rparr>, db0\<lparr>point_images := [image1, image2]\<rparr>)"
    by (simp add: PointImageUploadView_post_def get_object_or_404_def is_valid_def photo_def
        image1_def image2_def next_id_def HTTP_201_CREATED_def example_defs Let_def)
  from two_uploads_two_images [OF first second] have "pi_id image1 \<noteq> pi_id image2" by simp
  with first second show ?thesis by blast
qed

section \<open>The moderation fields of a point\<close>

lemma moderation_fields_same:
  "collection_points d' = collection_points d \<Longrightarrow> moderation_fields d' i = moderation_fields d i"
  by (simp add: moderation_fields_def)

lemma moderation_fields_append:
  "moderation_fields d i = Some m \<Longrightarrow> collection_points d' = collection_points d @ [new] \<Longrightarrow>
     moderation_fields d' i = Some m"
  by (auto simp: moderation_fields_def find_append_fresh)

lemma moderation_fields_save:
  assumes found: "find (\<lambda>p. cp_id p = k) (collection_points d) = Some instance"
    and same: "cp_id updated = cp_id instance" "is_active updated = is_active instance"
      "status updated = status instance"
  shows "moderation_fields (save_point updated d) i = moderation_fields d i"
proof -
  define f where "f = (\<lambda>p. if cp_id p = cp_id updated then updated else p)"
  have key: "\<And>p. cp_id (f p) = cp_id p" by (simp add: f_def)
  have after: "moderation_fields (save_point updated d) i =
      map_option (\<lambda>p. (is_active (f p), status (f p))) (find (\<lambda>p. cp_id p = i) (collection_points d))"
    using find_map_same_key [of cp_id f i "collection_points d", OF key]
    by (simp add: moderation_fields_def save_point_def f_def [symmetric] option.map_comp comp_def)
  from find_Some_key [OF found] have k: "cp_id instance = k" by simp
  show ?thesis
  proof (cases "find (\<lambda>p. cp_id p = i) (collection_points d)")
    case None
    with after show ?thesis by (simp add: moderation_fields_def)
  next
    case (Some p)
    from find_Some_key [OF Some] have pi: "cp_id p = i" by simp
    have "is_active (f p) = is_active p \<and> status (f p) = status p"
    proof (cases "i = k")
      case True
      with Some found have "p = instance" by simp
      with same show ?thesis by (simp add: f_def)
    next
      case False
      with pi k same show ?thesis by (simp add: f_def)
    qed
    with after Some show ?thesis by (simp add: moderation_fields_def)
  qed
qed

lemma moderation_fields_delete:
  "moderation_fields (delete_point k d) i = (if i = k then None else moderation_fields d i)"
  by (simp add: moderation_fields_def delete_point_def find_filter_other find_filter_self)

lemma moderation_fields_new:
  assumes "collection_points d' = collection_points d @ [new]"
    and "cp_id new = next_id (map cp_id (collection_points d))"
  shows "moderation_fields d' (cp_id new) = Some (is_active new, status new)"
proof -
  have "cp_id new \<notin> set (map cp_id (collection_points d))"
    unfolding assms(2) by (rule next_id_fresh)
  then have "find (\<lambda>p. cp_id p = cp_id new) (collection_points d) = None"
    by (simp add: find_None_iff_not_in)
  then show ?thesis
    by (simp add: moderation_fields_def assms(1) find_append_new)
qed

section \<open>Creating a point\<close>

lemma create_point_result:
  "CollectionPointList_create S user body d =
     (case CollectionPointSerializer_is_valid S False d body of
        Inl e \<Rightarrow> (Inl e, d)
      | Inr validated_data \<Rightarrow>
          (Inr \<lparr>data = \<lparr>cp_id = next_id (map cp_id (collection_points d)), cp_user_id = user_id user,
                         is_active = False, status = ''pending'', cp_fields = validated_data\<rparr>,
                status_code = 201\<rparr>,
           d\<lparr>collection_points := collection_points d @
               [\<lparr>cp_id = next_id (map cp_id (collection_points d)), cp_user_id = user_id user,
                 is_active = False, status = ''pending'', cp_fields = validated_data\<rparr>]\<rparr>))"
  by (simp add: CollectionPointList_create_def CollectionPointSerializer_create_def Let_def
      HTTP_201_CREATED_def split: sum.splits)

lemma read_only_moderation_keys:
  "filter (\<lambda>(k, v). k \<notin> set read_only_fields)
     (filter (\<lambda>(k, v). k \<noteq> ''is_active'' \<and> k \<noteq> ''status'') incoming) =
   filter (\<lambda>(k, v). k \<notin> set read_only_fields) incoming"
  by (induction incoming) (auto simp: read_only_fields_def)

text \<open>
  C2: every point that a create-point request stores has \<open>is_active = false\<close> and
  \<open>status = 'pending'\<close>, and the request does the same whatever values its body
  gives those two fields: with the two keys and without them the result is the same.
\<close>

theorem created_point_awaits_moderation:
  "(\<forall>r d'. CollectionPointList_create S user body d = (Inr r, d') \<longrightarrow>
      is_active (data r) = False \<and> status (data r) = ''pending''
      \<and> collection_points d' = collection_points d @ [data r]
      \<and> moderation_fields d' (cp_id (data r)) = Some (False, ''pending''))
   \<and> CollectionPointList_create S user (Mapping incoming) d =
       CollectionPointList_create S user
         (Mapping (filter (\<lambda>(k, v). k \<noteq> ''is_active'' \<and> k \<noteq> ''status'') incoming)) d"
proof (intro conjI allI impI)
  fix r d'
  assume created: "CollectionPointList_create S user body d = (Inr r, d')"
  then have fields: "is_active (data r) = False \<and> status (data r) = ''pending''
      \<and> cp_id (data r) = next_id (map cp_id (collection_points d))"
    and rows: "collection_points d' = collection_points d @ [data r]"
    by (auto simp: create_point_result split: sum.splits)
  from moderation_fields_new [OF rows] fields
  have "moderation_fields d' (cp_id (data r)) = Some (False, ''pending'')" by simp
  with fields rows show "is_active (data r) = False" "status (data r) = ''pending''"
    "collection_points d' = collection_points d @ [data r]"
    "moderation_fields d' (cp_id (data r)) = Some (False, ''pending'')"
    by simp_all
next
  show "CollectionPointList_create S user (Mapping incoming) d =
       CollectionPointList_create S user
         (Mapping (filter (\<lambda>(k, v). k \<noteq> ''is_active'' \<and> k \<noteq> ''status'') incoming)) d"
    by (simp add: CollectionPointList_create_def CollectionPointSerializer_is_valid_def
        read_only_moderation_keys del: filter_filter)
qed

theorem created_point_awaits_moderation_witness:
  "CollectionPointList_create S0 alice keen_body db0 =
     (Inr \<lparr>data = point3, status_code = 201\<rparr>, db0\<lparr>collection_points := [point1, point2, point3]\<rparr>)
   \<and> is_active point3 = False \<and> status point3 = ''pending''
   \<and> moderation_fields (db0\<lparr>collection_points := [point1, point2, point3]\<rparr>) 3 = Some (False, ''pending'')"
proof -
  have created: "CollectionPointList_create S0 alice keen_body db0 =
     (Inr \<lparr>data = point3, status_code = 201\<rparr>, db0\<lparr>collection_points := [point1, point2, point3]\<rparr>)"
    by (simp add: create_point_result CollectionPointSerializer_is_valid_def is_valid_def
        read_only_fields_def keen_body_def point3_def next_id_def example_defs)
  from created_point_awaits_moderation [of S0 alice keen_body db0] created
  have "is_active (data \<lparr>data = point3, status_code = 201\<rparr>) = False
      \<and> status (data \<lparr>data = point3, status_code = 201\<rparr>) = ''pending''
      \<and> moderation_fields (db0\<lparr>collection_points := [point1, point2, point3]\<rparr>)
           (cp_id (data \<lparr>data = point3, status_code = (201::nat)\<rparr>)) = Some (False, ''pending'')"
    by blast
  moreover have "cp_id point3 = 3" by (simp add: point3_def)
  ultimately show ?thesis using created by simp
qed

section \<open>Moderation\<close>

lemma snd_dispatch:
  "snd (dispatch perms user h d) = (if check_permissions perms user then snd (h d) else d)"
  by (simp add: dispatch_def)

lemma points_type_create: "collection_points (snd (CollectionTypeList_create S body d)) = collection_points d"
  by (auto simp: CollectionTypeList_create_def Let_def split: sum.splits)

lemma points_type_update: "collection_points (snd (CollectionTypeDetail_update S partial pk body d)) = collection_points d"
  by (auto simp: CollectionTypeDetail_update_def Let_def split: sum.splits)

lemma points_type_destroy: "collection_points (snd (CollectionTypeDetail_destroy pk d)) = collection_points d"
  by (auto simp: CollectionTypeDetail_destroy_def Let_def split: sum.splits)

lemma points_review_create: "collection_points (snd (PointReviewList_create S body d)) = collection_points d"
  by (auto simp: PointReviewList_create_def Let_def split: sum.splits option.splits)

lemma points_review_update: "collection_points (snd (PointReviewDetail_update S partial pk body d)) = collection_points d"
  by (auto simp: PointReviewDetail_update_def Let_def split: sum.splits)

lemma points_review_destroy: "collection_points (snd (PointReviewDetail_destroy pk d)) = collection_points d"
  by (auto simp: PointReviewDetail_destroy_def Let_def split: sum.splits)

lemma points_review_filter: "snd (PointReviewFilteredList_get q d) = d"
  by (auto simp: PointReviewFilteredList_get_def Let_def split: sum.splits option.splits)

lemma points_objects_create: "collection_points (snd (OperatingHour_objects_create vd d)) = collection_points d"
  by (auto simp: OperatingHour_objects_create_def Let_def split: option.splits jvalue.splits)

lemma points_hour_create: "collection_points (snd (OperatingHourList_create S body d)) = collection_points d"
  using points_objects_create
  by (auto simp: OperatingHourList_create_def split: sum.splits prod.splits) (metis snd_conv)+

lemma points_scoped_create: "collection_points (snd (OperatingHourDetail_create S pk body d)) = collection_points d"
  using points_objects_create
  by (auto simp: OperatingHourDetail_create_def OperatingHourDetail_perform_create_def
      split: sum.splits prod.splits) (metis snd_conv)+

lemma points_scoped_list: "snd (OperatingHourDetail_list pk d) = d"
  by (simp add: OperatingHourDetail_list_def split: option.splits)

lemma points_upload: "collection_points (snd (PointImageUploadView_post S pk body d)) = collection_points d"
  by (auto simp: PointImageUploadView_post_def Let_def split: sum.splits option.splits)

lemma keeps_point_create:
  "moderation_fields d i = Some m \<Longrightarrow>
     moderation_fields (snd (CollectionPointList_create S user body d)) i = Some m"
  by (auto simp: CollectionPointList_create_def CollectionPointSerializer_create_def Let_def
      split: sum.splits intro: moderation_fields_append)

lemma keeps_point_update:
  "moderation_fields (snd (CollectionPointDetail_update S partial pk body d)) i = moderation_fields d i"
proof (cases "get_object_or_404 cp_id (get_all_object_collection_point d) pk")
  case (Inl e)
  then show ?thesis by (simp add: CollectionPointDetail_update_def)
next
  case (Inr inst)
  then have found: "find (\<lambda>p. cp_id p = cp_id inst) (collection_points d) = Some inst"
    by (simp add: get_all_object_collection_point_def get_object_or_404_find)
  show ?thesis
  proof (cases "CollectionPointSerializer_is_valid S partial d body")
    case (Inl e)
    with Inr show ?thesis by (simp add: CollectionPointDetail_update_def)
  next
    case (Inr validated_data)
    with \<open>get_object_or_404 cp_id (get_all_object_collection_point d) pk = Inr inst\<close>
    show ?thesis
      by (simp add: CollectionPointDetail_update_def Let_def
          moderation_fields_save [OF found] CollectionPointSerializer_update_def)
  qed
qed

lemma keeps_point_destroy:
  "moderation_fields (snd (CollectionPointDetail_destroy pk d)) i = Some m \<Longrightarrow>
     moderation_fields d i = Some m"
  by (auto simp: CollectionPointDetail_destroy_def moderation_fields_delete
      split: sum.splits if_splits)

lemma moderation_denied:
  "\<not> is_staff user \<Longrightarrow> UpdatePointStatusView user pk body d = (Inl PermissionDenied, d)"
  by (simp add: UpdatePointStatusView_def UpdatePointStatusView_permission_classes_def
      dispatch_def check_permissions_def)

lemmas keeps_other_tables =
  points_type_create [THEN moderation_fields_same]
  points_type_update [THEN moderation_fields_same]
  points_type_destroy [THEN moderation_fields_same]
  points_review_create [THEN moderation_fields_same]
  points_review_update [THEN moderation_fields_same]
  points_review_destroy [THEN moderation_fields_same]
  points_hour_create [THEN moderation_fields_same]
  points_scoped_create [THEN moderation_fields_same]
  points_upload [THEN moderation_fields_same]

lemma handle_keeps_moderation_fields:
  assumes "\<not> (is_moderation r \<and> is_staff user)"
    and "moderation_fields d i = Some m"
    and "moderation_fields (handle S user r d) i = Some m'"
  shows "m' = m"
  using assms
  by (cases r)
    (auto simp: snd_dispatch moderation_denied keeps_point_create keeps_point_update
      keeps_other_tables points_review_filter points_scoped_list
      dest: keeps_point_destroy split: if_splits)

text \<open>
  C1: for every collection point and every caller who is not an administrator, the
  moderation endpoint fails with \<open>PermissionDenied\<close> and leaves the database as it was,
  whether or not the point exists; and if any request of the module changes the
  \<open>is_active\<close> or \<open>status\<close> of an existing point, the request is a moderation request
  and its caller is an administrator.
\<close>

theorem moderation_is_admin_only:
  "(\<not> is_staff user \<longrightarrow> UpdatePointStatusView user pk body d = (Inl PermissionDenied, d))
   \<and> (moderation_fields d i = Some before \<and> moderation_fields (handle S user r d) i = Some after
        \<and> after \<noteq> before \<longrightarrow> is_moderation r \<and> is_staff user)"
  using moderation_denied handle_keeps_moderation_fields by blast

theorem moderation_is_admin_only_witness:
  "\<not> is_staff alice
   \<and> UpdatePointStatusView alice (Some 1) approve db0 = (Inl PermissionDenied, db0)
   \<and> moderation_fields db0 1 = Some (False, ''pending'')
   \<and> moderation_fields (handle S0 admin (UpdatePointStatusView_PATCH (Some 1) approve) db0) 1 =
       Some (True, ''approved'')
   \<and> is_moderation (UpdatePointStatusView_PATCH (Some 1) approve) \<and> is_staff admin"
proof -
  have plain: "\<not> is_staff alice" by (simp add: alice_def)
  have before: "moderation_fields db0 1 = Some (False, ''pending'')"
    by (simp add: moderation_fields_def example_defs)
  have after: "moderation_fields (handle S0 admin (UpdatePointStatusView_PATCH (Some 1) approve) db0) 1 =
       Some (True, ''approved'')"
    by (simp add: moderation_fields_def UpdatePointStatusView_def dispatch_def check_permissions_def
        UpdatePointStatusView_permission_classes_def UpdatePointStatusView_update_def
        get_object_or_404_def get_all_object_collection_point_def
        PointStatusUpdateSerializer_is_valid_def valid_is_active_def valid_status_def
        status_choices_def PointStatusUpdateSerializer_update_def save_point_def approve_def
        example_defs Let_def)
  from moderation_is_admin_only [of alice "Some 1" approve db0] plain
  have denied: "UpdatePointStatusView alice (Some 1) approve db0 = (Inl PermissionDenied, db0)"
    by blast
  from moderation_is_admin_only [of admin _ _ db0 1 "(False, ''pending'')" S0
      "UpdatePointStatusView_PATCH (Some 1) approve" "(True, ''approved'')"] before after
  have "is_moderation (UpdatePointStatusView_PATCH (Some 1) approve) \<and> is_staff admin"
    by simp
  with plain denied before after show ?thesis by blast
qed

section \<open>The foreign key of an operating hour\<close>

text \<open>
  No request of the module leaves an operating hour that refers to a collection point
  the database does not have: a new hour is stored only for an existing point, and a
  point is deleted together with its hours.
\<close>

lemma refer_type_create: "hours_refer_to_points d \<Longrightarrow> hours_refer_to_points (snd (CollectionTypeList_create S body d))"
  by (auto simp: CollectionTypeList_create_def hours_refer_to_points_def Let_def split: sum.splits)

lemma refer_type_update: "hours_refer_to_points d \<Longrightarrow> hours_refer_to_points (snd (CollectionTypeDetail_update S partial pk body d))"
  by (auto simp: CollectionTypeDetail_update_def hours_refer_to_points_def Let_def split: sum.splits)

lemma refer_type_destroy: "hours_refer_to_points d \<Longrightarrow> hours_refer_to_points (snd (CollectionTypeDetail_destroy pk d))"
  by (auto simp: CollectionTypeDetail_destroy_def hours_refer_to_points_def Let_def split: sum.splits)

lemma refer_review_create: "hours_refer_to_points d \<Longrightarrow> hours_refer_to_points (snd (PointReviewList_create S body d))"
  by (auto simp: PointReviewList_create_def hours_refer_to_points_def Let_def split: sum.splits option.splits)

lemma refer_review_update: "hours_refer_to_points d \<Longrightarrow> hours_refer_to_points (snd (PointReviewDetail_update S partial pk body d))"
  by (auto simp: PointReviewDetail_update_def hours_refer_to_points_def Let_def split: sum.splits)

lemma refer_review_destroy: "hours_refer_to_points d \<Longrightarrow> hours_refer_to_points (snd (PointReviewDetail_destroy pk d))"
  by (auto simp: PointReviewDetail_destroy_def hours_refer_to_points_def Let_def split: sum.splits)

lemma refer_upload: "hours_refer_to_points d \<Longrightarrow> hours_refer_to_points (snd (PointImageUploadView_post S pk body d))"
  by (auto simp: PointImageUploadView_post_def hours_refer_to_points_def Let_def split: sum.splits option.splits)

lemma refer_point_create: "hours_refer_to_points d \<Longrightarrow> hours_refer_to_points (snd (CollectionPointList_create S user body d))"
  by (auto simp: create_point_result hours_refer_to_points_def list_all_iff split: sum.splits)

lemma refer_save_point: "hours_refer_to_points d \<Longrightarrow> hours_refer_to_points (save_point updated d)"
proof -
  have "map cp_id (map (\<lambda>p. if cp_id p = cp_id updated then updated else p) (collection_points d)) =
        map cp_id (collection_points d)"
    by (induction "collection_points d") auto
  then have "set (map cp_id (collection_points (save_point updated d))) = set (map cp_id (collection_points d))"
    by (simp add: save_point_def)
  moreover assume "hours_refer_to_points d"
  ultimately show ?thesis
    by (simp add: hours_refer_to_points_def save_point_def)
qed

lemma refer_point_update: "hours_refer_to_points d \<Longrightarrow> hours_refer_to_points (snd (CollectionPointDetail_update S partial pk body d))"
  by (auto simp: CollectionPointDetail_update_def Let_def refer_save_point split: sum.splits)

lemma refer_moderation: "hours_refer_to_points d \<Longrightarrow> hours_refer_to_points (snd (UpdatePointStatusView user pk body d))"
  by (auto simp: UpdatePointStatusView_def dispatch_def UpdatePointStatusView_update_def Let_def
      refer_save_point split: sum.splits)

lemma refer_delete_point: "hours_refer_to_points d \<Longrightarrow> hours_refer_to_points (delete_point i d)"
  by (auto simp: hours_refer_to_points_def delete_point_def list_all_iff)

lemma refer_point_destroy: "hours_refer_to_points d \<Longrightarrow> hours_refer_to_points (snd (CollectionPointDetail_destroy pk d))"
  by (auto simp: CollectionPointDetail_destroy_def refer_delete_point split: sum.splits)

lemma refer_objects_create: "hours_refer_to_points d \<Longrightarrow> hours_refer_to_points (snd (OperatingHour_objects_create vd d))"
  by (auto simp: OperatingHour_objects_create_def hours_refer_to_points_def Let_def
      split: option.splits jvalue.splits)

lemma refer_hour_create: "hours_refer_to_points d \<Longrightarrow> hours_refer_to_points (snd (OperatingHourList_create S body d))"
  using refer_objects_create
  by (auto simp: OperatingHourList_create_def split: sum.splits prod.splits) (metis snd_conv)+

lemma refer_scoped_create: "hours_refer_to_points d \<Longrightarrow> hours_refer_to_points (snd (OperatingHourDetail_create S pk body d))"
  using refer_objects_create
  by (auto simp: OperatingHourDetail_create_def OperatingHourDetail_perform_create_def
      split: sum.splits prod.splits) (metis snd_conv)+

lemma handle_keeps_hours_referring:
  "hours_refer_to_points d \<Longrightarrow> hours_refer_to_points (handle S user r d)"
  by (cases r)
    (simp_all add: snd_dispatch refer_type_create refer_type_update refer_type_destroy
      refer_review_create refer_review_update refer_review_destroy refer_upload
      refer_point_create refer_point_update refer_point_destroy refer_moderation
      refer_hour_create refer_scoped_create points_review_filter points_scoped_list)

end
